theory Spec2Isabelle
  imports Main "HOL-Library.Word"
begin

section \<open>Values, errors and the outside world\<close>

text \<open>
  The program is \<^verbatim>\<open>scrapy_time_machine/storages.py\<close>: a snapshot store
  \<^verbatim>\<open>DbmTimeMachineStorage\<close> over a \<^verbatim>\<open>dbm\<close> database and its subclass
  \<^verbatim>\<open>S3TimeMachineStorage\<close>, which stages the database in a temporary file and
  synchronises it with an S3 object. Python \<^verbatim>\<open>str\<close> is \<open>string\<close>,
  \<^verbatim>\<open>bytes\<close> is a list of 8-bit words, an exception is a value of \<open>error\<close>
  on the left of a sum.
\<close>

type_synonym bytes = "8 word list"

text \<open>The contents of a dbm database: keys in insertion order, no key twice.\<close>

type_synonym entries = "(string \<times> bytes) list"

text \<open>What a file (or an S3 object) holds: a dbm database, or bytes that are not one.\<close>

datatype content = Database entries | Plain bytes

text \<open>The plain dict \<^verbatim>\<open>dict(response.headers)\<close>: header name to list of values.\<close>

type_synonym hdict = "(bytes \<times> bytes list) list"

datatype error =
    CloseSpider string
  | ValueError string
  | KeyError string
  | TypeError
  | AttributeError
  | DbmError string
  | LibraryError string

text \<open>
  Every call that reaches the file system or the network leaves an event, in call order.
  An event is recorded when the call is made, whether or not it then succeeds: a call
  that raises leaves its event too.
\<close>

datatype event =
    DbmOpen string string
  | DbmClose string
  | DbmLen string
  | DbmContains string string
  | DbmGet string string
  | DbmPut string string bytes
  | MakeDirs string
  | TempfileCreate string
  | TempfileFlush string
  | TempfileClose string
  | S3Download string string
  | S3Upload string string string

record world =
  files :: "string \<rightharpoonup> content"
  trace :: "event list"

definition emit :: "event \<Rightarrow> world \<Rightarrow> world" where
  "emit e w = w\<lparr>trace := trace w @ [e]\<rparr>"

section \<open>The libraries the program calls\<close>

subsection \<open>Python's dbm objects\<close>

text \<open>
  A dbm object names its file and knows whether it has been closed; the entries live in
  the file. The model is the backend that keeps the database in the file of the given
  name, as \<^verbatim>\<open>dbm.gnu\<close> does; \<^verbatim>\<open>dbm.ndbm\<close> and \<^verbatim>\<open>dbm.dumb\<close> keep
  it in files whose names add a suffix. Every operation but \<^verbatim>\<open>close\<close> raises
  \<^verbatim>\<open>dbm.error\<close> on a closed object. A dbm object has \<^verbatim>\<open>__len__\<close> and no
  \<^verbatim>\<open>__bool__\<close>, so its truth value is taken by a call of \<^verbatim>\<open>len\<close>: it is
  "has at least one entry", and on a closed object the call raises.
\<close>

record dbm =
  dbm_file :: string
  dbm_closed :: bool

definition closed_msg :: string where
  "closed_msg = ''DBM object has already been closed''"

definition dbm_entries :: "dbm \<Rightarrow> world \<Rightarrow> entries" where
  "dbm_entries d w =
     (case files w (dbm_file d) of
        None \<Rightarrow> []
      | Some (Database es) \<Rightarrow> es
      | Some (Plain bs) \<Rightarrow> [])"

text \<open>
  \<^verbatim>\<open>dbm.open(path, flag)\<close>: flag \<^verbatim>\<open>"n"\<close> always makes a new, empty database;
  flag \<^verbatim>\<open>"c"\<close> makes an empty database when no file is there, opens the file when
  it holds a database, and raises \<^verbatim>\<open>dbm.error\<close> when the file holds anything
  else (an empty file too).
\<close>

definition dbm_open :: "string \<Rightarrow> string \<Rightarrow> world \<Rightarrow> (error + dbm) \<times> world" where
  "dbm_open path flag w =
     (let w1 = emit (DbmOpen path flag) w;
          d = \<lparr>dbm_file = path, dbm_closed = False\<rparr>
      in if flag = ''n'' then (Inr d, w1\<lparr>files := (files w1)(path \<mapsto> Database [])\<rparr>)
         else (case files w path of
                 None \<Rightarrow> (Inr d, w1\<lparr>files := (files w1)(path \<mapsto> Database [])\<rparr>)
               | Some (Database es) \<Rightarrow> (Inr d, w1)
               | Some (Plain bs) \<Rightarrow>
                   (Inl (DbmError ''db type could not be determined''), w1)))"

definition dbm_contains :: "dbm \<Rightarrow> string \<Rightarrow> world \<Rightarrow> (error + bool) \<times> world" where
  "dbm_contains d k w =
     (let w1 = emit (DbmContains (dbm_file d) k) w
      in if dbm_closed d then (Inl (DbmError closed_msg), w1)
         else (Inr (case map_of (dbm_entries d w) k of None \<Rightarrow> False | Some v \<Rightarrow> True),
               w1))"

definition dbm_getitem :: "dbm \<Rightarrow> string \<Rightarrow> world \<Rightarrow> (error + bytes) \<times> world" where
  "dbm_getitem d k w =
     (let w1 = emit (DbmGet (dbm_file d) k) w
      in if dbm_closed d then (Inl (DbmError closed_msg), w1)
         else (case map_of (dbm_entries d w) k of
                 None \<Rightarrow> (Inl (KeyError k), w1)
               | Some v \<Rightarrow> (Inr v, w1)))"

text \<open>Assignment replaces the value of a key that is there and appends a new key.\<close>

fun upsert :: "string \<Rightarrow> bytes \<Rightarrow> entries \<Rightarrow> entries" where
  "upsert k v [] = [(k, v)]"
| "upsert k v ((k', v') # es) =
     (if k = k' then (k, v) # es else (k', v') # upsert k v es)"

definition dbm_setitem :: "dbm \<Rightarrow> string \<Rightarrow> bytes \<Rightarrow> world \<Rightarrow> (error + unit) \<times> world" where
  "dbm_setitem d k v w =
     (let w1 = emit (DbmPut (dbm_file d) k v) w
      in if dbm_closed d then (Inl (DbmError closed_msg), w1)
         else (Inr (),
               w1\<lparr>files := (files w1)(dbm_file d \<mapsto> Database (upsert k v (dbm_entries d w)))\<rparr>))"

text \<open>\<^verbatim>\<open>bool(db)\<close>, that is \<^verbatim>\<open>len(db) != 0\<close>.\<close>

definition dbm_bool :: "dbm \<Rightarrow> world \<Rightarrow> (error + bool) \<times> world" where
  "dbm_bool d w =
     (let w1 = emit (DbmLen (dbm_file d)) w
      in if dbm_closed d then (Inl (DbmError closed_msg), w1)
         else (Inr (dbm_entries d w \<noteq> []), w1))"

definition dbm_close :: "dbm \<Rightarrow> world \<Rightarrow> dbm \<times> world" where
  "dbm_close d w = (d\<lparr>dbm_closed := True\<rparr>, emit (DbmClose (dbm_file d)) w)"

subsection \<open>Temporary files\<close>

text \<open>
  \<^verbatim>\<open>NamedTemporaryFile(mode="wb", suffix=".db", delete=False)\<close> makes a new empty
  file under a name the operating system picks; the name is an input of the model.
  \<^verbatim>\<open>flush\<close> on a closed file raises \<^verbatim>\<open>ValueError\<close>; \<^verbatim>\<open>close\<close> on a closed
  file changes nothing. With \<^verbatim>\<open>delete=False\<close> closing leaves the file on disk.
\<close>

record tempfile =
  tf_name :: string
  tf_closed :: bool

definition NamedTemporaryFile :: "string \<Rightarrow> world \<Rightarrow> tempfile \<times> world" where
  "NamedTemporaryFile name w =
     (\<lparr>tf_name = name, tf_closed = False\<rparr>,
      emit (TempfileCreate name) (w\<lparr>files := (files w)(name \<mapsto> Plain [])\<rparr>))"

definition tempfile_flush :: "tempfile \<Rightarrow> world \<Rightarrow> (error + unit) \<times> world" where
  "tempfile_flush tf w =
     (let w1 = emit (TempfileFlush (tf_name tf)) w
      in if tf_closed tf then (Inl (ValueError ''flush of closed file''), w1)
         else (Inr (), w1))"

definition tempfile_close :: "tempfile \<Rightarrow> world \<Rightarrow> tempfile \<times> world" where
  "tempfile_close tf w = (tf\<lparr>tf_closed := True\<rparr>, emit (TempfileClose (tf_name tf)) w)"

subsection \<open>Pure library functions, taken as parameters\<close>

text \<open>
  The program pickles a dict with the four keys \<^verbatim>\<open>status\<close>, \<^verbatim>\<open>url\<close>,
  \<^verbatim>\<open>headers\<close> and \<^verbatim>\<open>body\<close>.
\<close>

record pickled =
  p_status :: int
  p_url :: string
  p_headers :: hdict
  p_body :: bytes

text \<open>
  A response as the program reads and builds it. The class of the object
  (\<^verbatim>\<open>respcls\<close>) is chosen by \<^verbatim>\<open>responsetypes.from_args\<close>.
\<close>

record 'h response =
  status :: int
  url :: string
  headers :: 'h
  body :: bytes
  respcls :: string

text \<open>
  What the program imports from scrapy, gzip, pickle and urllib. Their behaviour is not
  fixed here: each theorem says what it needs of them. \<open>urlparse\<close> gives the first three
  components (scheme, netloc, path) of its result.
\<close>

record ('req, 'h) libs =
  request_fingerprint :: "'req \<Rightarrow> string"
  gzip_compress :: "bytes \<Rightarrow> bytes"
  gzip_decompress :: "bytes \<Rightarrow> error + bytes"
  pickle_dumps :: "pickled \<Rightarrow> bytes"
  pickle_loads :: "bytes \<Rightarrow> error + pickled"
  headers_dict :: "'h \<Rightarrow> hdict"
  Headers :: "hdict \<Rightarrow> 'h"
  from_args :: "'h \<Rightarrow> string \<Rightarrow> string"
  urlparse :: "string option \<Rightarrow> error + (string \<times> string \<times> string)"

text \<open>
  What \<^verbatim>\<open>set_uri\<close> calls: the \<^verbatim>\<open>%\<close> operator on the uri template (it
  raises on a template its parameters do not fit), \<^verbatim>\<open>file_uri_to_path\<close>, the
  functions of \<^verbatim>\<open>os.path\<close>, and scrapy's \<^verbatim>\<open>data_path\<close>, which with
  \<^verbatim>\<open>createdir=True\<close> also makes the directory it returns.
\<close>

record 'p pathlibs =
  percent_format :: "string \<Rightarrow> 'p \<Rightarrow> error + string"
  file_uri_to_path :: "string \<Rightarrow> string"
  dirname :: "string \<Rightarrow> string"
  basename :: "string \<Rightarrow> string"
  data_path :: "string \<Rightarrow> string"
  join :: "string \<Rightarrow> string \<Rightarrow> string"

text \<open>
  The boto3 client held in \<^verbatim>\<open>self.s3_client\<close>: for a bucket and a key,
  \<^verbatim>\<open>download_fileobj\<close> gives what is stored there or raises;
  \<^verbatim>\<open>upload_file\<close> of a local file succeeds (\<open>None\<close>) or raises.
\<close>

record s3client =
  download_fileobj :: "string \<Rightarrow> string \<Rightarrow> error + content"
  upload_file :: "string \<Rightarrow> string \<Rightarrow> string \<Rightarrow> error option"

text \<open>A \<^verbatim>\<open>str\<close> stored in a dbm database is encoded to bytes.\<close>

definition str_bytes :: "string \<Rightarrow> bytes" where
  "str_bytes s = map of_char s"

text \<open>\<^verbatim>\<open>s.lstrip('/')\<close>\<close>

definition lstrip_slash :: "string \<Rightarrow> string" where
  "lstrip_slash s = dropWhile (\<lambda>c. c = CHR ''/'') s"

section \<open>DbmTimeMachineStorage\<close>

record storage =
  db :: "dbm option"
  snapshot_uri :: "string option"
  spider :: "string option"

definition init_storage :: storage where
  "init_storage = \<lparr>db = None, snapshot_uri = None, spider = None\<rparr>"

definition set_uri ::
  "'p pathlibs \<Rightarrow> 'a storage_scheme \<Rightarrow> string \<Rightarrow> 'p \<Rightarrow> world
     \<Rightarrow> (error + unit) \<times> 'a storage_scheme \<times> world" where
  "set_uri P s uri uri_params w =
     (case percent_format P uri uri_params of
        Inl e \<Rightarrow> (Inl e, s, w)
      | Inr u \<Rightarrow>
          (let p0 = file_uri_to_path P u;
               path = data_path P (dirname P p0);
               db_name = basename P p0
           in (Inr (), s\<lparr>snapshot_uri := Some (join P path db_name)\<rparr>,
               emit (MakeDirs path) w)))"

text \<open>\<^verbatim>\<open>os.path.exists\<close> raises \<^verbatim>\<open>TypeError\<close> on \<^verbatim>\<open>None\<close>.\<close>

definition is_uri_valid :: "'a storage_scheme \<Rightarrow> world \<Rightarrow> error + bool" where
  "is_uri_valid s w =
     (case snapshot_uri s of
        None \<Rightarrow> Inl TypeError
      | Some p \<Rightarrow> Inr (case files w p of None \<Rightarrow> False | Some es \<Rightarrow> True))"

definition request_key :: "('req, 'h) libs \<Rightarrow> 'req \<Rightarrow> string" where
  "request_key L request = request_fingerprint L request"

text \<open>Lines 80 to 86: the record of a response, pickled.\<close>

definition encode_record :: "('req, 'h) libs \<Rightarrow> 'h response \<Rightarrow> bytes" where
  "encode_record L response =
     pickle_dumps L
       \<lparr>p_status = status response,
        p_url = url response,
        p_headers = headers_dict L (headers response),
        p_body = gzip_compress L (body response)\<rparr>"

text \<open>Lines 70 to 76: the response built from an unpickled record.\<close>

definition build_response :: "('req, 'h) libs \<Rightarrow> pickled \<Rightarrow> error + 'h response" where
  "build_response L data =
     (let u = p_url data;
          st = p_status data;
          hs = Headers L (p_headers data)
      in case gzip_decompress L (p_body data) of
           Inl e \<Rightarrow> Inl e
         | Inr b \<Rightarrow>
             Inr \<lparr>status = st, url = u, headers = hs, body = b,
                  respcls = from_args L hs u\<rparr>)"

text \<open>Line 97 and lines 70 to 76: from the stored bytes to the response.\<close>

definition decode_record :: "('req, 'h) libs \<Rightarrow> bytes \<Rightarrow> error + 'h response" where
  "decode_record L blob =
     (case pickle_loads L blob of
        Inl e \<Rightarrow> Inl e
      | Inr data \<Rightarrow> build_response L data)"

definition read_data ::
  "('req, 'h) libs \<Rightarrow> 'a storage_scheme \<Rightarrow> 'req \<Rightarrow> world \<Rightarrow> (error + pickled option) \<times> world" where
  "read_data L s request w =
     (let key = request_key L request;
          tkey = key @ ''_time''
      in case db s of
           None \<Rightarrow> (Inl TypeError, w)
         | Some d \<Rightarrow>
             (case dbm_contains d tkey w of
                (Inl e, w1) \<Rightarrow> (Inl e, w1)
              | (Inr present, w1) \<Rightarrow>
                  if \<not> present then (Inr None, w1)
                  else (case dbm_getitem d (key @ ''_data'') w1 of
                          (Inl e, w2) \<Rightarrow> (Inl e, w2)
                        | (Inr blob, w2) \<Rightarrow>
                            (case pickle_loads L blob of
                               Inl e \<Rightarrow> (Inl e, w2)
                             | Inr data \<Rightarrow> (Inr (Some data), w2)))))"

definition retrieve_response ::
  "('req, 'h) libs \<Rightarrow> 'a storage_scheme \<Rightarrow> 'req \<Rightarrow> world
     \<Rightarrow> (error + 'h response option) \<times> world" where
  "retrieve_response L s request w =
     (case read_data L s request w of
        (Inl e, w1) \<Rightarrow> (Inl e, w1)
      | (Inr None, w1) \<Rightarrow> (Inr None, w1)
      | (Inr (Some data), w1) \<Rightarrow>
          (case build_response L data of
             Inl e \<Rightarrow> (Inl e, w1)
           | Inr r \<Rightarrow> (Inr (Some r), w1)))"

text \<open>
  \<open>now\<close> is the text \<^verbatim>\<open>str(time())\<close> of the clock reading taken by this call.
\<close>

definition store_response ::
  "('req, 'h) libs \<Rightarrow> 'a storage_scheme \<Rightarrow> 'req \<Rightarrow> 'h response \<Rightarrow> string \<Rightarrow> world
     \<Rightarrow> (error + unit) \<times> world" where
  "store_response L s request response now w =
     (let key = request_key L request;
          data = encode_record L response
      in case db s of
           None \<Rightarrow> (Inl TypeError, w)
         | Some d \<Rightarrow>
             (case dbm_setitem d (key @ ''_data'') data w of
                (Inl e, w1) \<Rightarrow> (Inl e, w1)
              | (Inr u, w1) \<Rightarrow> dbm_setitem d (key @ ''_time'') (str_bytes now) w1))"

text \<open>The two hooks of the base class do nothing.\<close>

definition prepare_time_machine ::
  "'a storage_scheme \<Rightarrow> world \<Rightarrow> (error + unit) \<times> 'a storage_scheme \<times> world" where
  "prepare_time_machine s w = (Inr (), s, w)"

definition finish_time_machine ::
  "'a storage_scheme \<Rightarrow> world \<Rightarrow> (error + unit) \<times> 'a storage_scheme \<times> world" where
  "finish_time_machine s w = (Inr (), s, w)"

text \<open>
  \<^verbatim>\<open>not self.snapshot_uri\<close> holds of \<^verbatim>\<open>None\<close> and of the empty string.
\<close>

definition open_spider ::
  "'a storage_scheme \<Rightarrow> string \<Rightarrow> world \<Rightarrow> (error + unit) \<times> 'a storage_scheme \<times> world" where
  "open_spider s sp w =
     (let s1 = s\<lparr>spider := Some sp\<rparr>
      in case prepare_time_machine s1 w of
           (Inl e, s2, w2) \<Rightarrow> (Inl e, s2, w2)
         | (Inr u, s2, w2) \<Rightarrow>
             (case snapshot_uri s2 of
                None \<Rightarrow> (Inl (CloseSpider ''Snapshot uri not configured.''), s2, w2)
              | Some p \<Rightarrow>
                  if p = []
                  then (Inl (CloseSpider ''Snapshot uri not configured.''), s2, w2)
                  else (case dbm_open p ''c'' w2 of
                          (Inl e, w3) \<Rightarrow> (Inl e, s2, w3)
                        | (Inr d, w3) \<Rightarrow> (Inr (), s2\<lparr>db := Some d\<rparr>, w3))))"

text \<open>
  \<^verbatim>\<open>close_spider\<close> is inherited by the subclass; the hook it calls last is the
  one of the object's class, here the parameter \<open>finish\<close>.
\<close>

definition close_spider_with ::
  "('a storage_scheme \<Rightarrow> world \<Rightarrow> (error + unit) \<times> 'a storage_scheme \<times> world)
     \<Rightarrow> 'a storage_scheme \<Rightarrow> world \<Rightarrow> (error + unit) \<times> 'a storage_scheme \<times> world" where
  "close_spider_with finish s w =
     (case db s of
        None \<Rightarrow> finish s w
      | Some d \<Rightarrow>
          (case dbm_bool d w of
             (Inl e, w1) \<Rightarrow> (Inl e, s, w1)
           | (Inr False, w1) \<Rightarrow> finish s w1
           | (Inr True, w1) \<Rightarrow>
               (case dbm_close d w1 of
                  (d', w2) \<Rightarrow> finish (s\<lparr>db := Some d'\<rparr>) w2)))"

definition close_spider ::
  "'a storage_scheme \<Rightarrow> world \<Rightarrow> (error + unit) \<times> 'a storage_scheme \<times> world" where
  "close_spider = close_spider_with finish_time_machine"

section \<open>S3TimeMachineStorage\<close>

record s3storage = storage +
  s3_uri :: "string option"
  s3_client :: s3client
  retrieve_mode :: bool
  snapshot_mode :: bool
  path_to_local_file :: "tempfile option"

definition get_netloc_and_path ::
  "('req, 'h) libs \<Rightarrow> string option \<Rightarrow> error + (string \<times> string)" where
  "get_netloc_and_path L uri =
     (case urlparse L uri of
        Inl e \<Rightarrow> Inl e
      | Inr (scheme, netloc, path) \<Rightarrow>
          if \<not> scheme = ''s3''
          then Inl (ValueError (''Provided uri scheme is not s3: '' @ scheme))
          else if netloc = [] \<or> path = []
          then Inl (ValueError ''bucket and path must not be empty'')
          else Inr (netloc, path))"

text \<open>A pair is never empty, so \<^verbatim>\<open>bool\<close> of the result is \<^verbatim>\<open>True\<close>.\<close>

definition s3_is_uri_valid :: "('req, 'h) libs \<Rightarrow> 'a s3storage_scheme \<Rightarrow> error + bool" where
  "s3_is_uri_valid L s =
     (case get_netloc_and_path L (snapshot_uri s) of
        Inl e \<Rightarrow> Inl e
      | Inr np \<Rightarrow> Inr True)"

text \<open>\<^verbatim>\<open>self.s3_uri % uri_params\<close>; an unset \<^verbatim>\<open>s3_uri\<close> has no \<^verbatim>\<open>%\<close>.\<close>

definition s3_set_uri ::
  "'p pathlibs \<Rightarrow> 'a s3storage_scheme \<Rightarrow> string \<Rightarrow> 'p
     \<Rightarrow> (error + string) \<times> 'a s3storage_scheme" where
  "s3_set_uri P s uri uri_params =
     (case s3_uri s of
        None \<Rightarrow> (Inl TypeError, s)
      | Some t \<Rightarrow>
          (case percent_format P t uri_params of
             Inl e \<Rightarrow> (Inl e, s)
           | Inr u \<Rightarrow> (Inr u, s\<lparr>snapshot_uri := Some u\<rparr>)))"

text \<open>
  \<open>tmp\<close> is the name the operating system gives the temporary file. What
  \<^verbatim>\<open>download_fileobj\<close> writes through the file object is taken to be in the file
  when \<^verbatim>\<open>dbm.open\<close> reads it.
\<close>

definition s3_prepare_time_machine ::
  "('req, 'h) libs \<Rightarrow> string \<Rightarrow> 'a s3storage_scheme \<Rightarrow> world
     \<Rightarrow> (error + unit) \<times> 'a s3storage_scheme \<times> world" where
  "s3_prepare_time_machine L tmp s w =
     (case NamedTemporaryFile tmp w of
        (tempfile, w1) \<Rightarrow>
          if retrieve_mode s then
            (case get_netloc_and_path L (snapshot_uri s) of
               Inl e \<Rightarrow> (Inl e, s, w1)
             | Inr (s3_bucket, s3_path) \<Rightarrow>
                 (let w2 = emit (S3Download s3_bucket (lstrip_slash s3_path)) w1
                  in case download_fileobj (s3_client s) s3_bucket (lstrip_slash s3_path) of
                       Inl e \<Rightarrow> (Inl e, s, w2)
                     | Inr content \<Rightarrow>
                         (case dbm_open (tf_name tempfile) ''c''
                                 (w2\<lparr>files := (files w2)(tf_name tempfile \<mapsto> content)\<rparr>) of
                            (Inl e, w3) \<Rightarrow> (Inl e, s, w3)
                          | (Inr d, w3) \<Rightarrow>
                              (Inr (), s\<lparr>db := Some d, path_to_local_file := Some tempfile\<rparr>, w3))))
          else
            (case dbm_open (tf_name tempfile) ''n'' w1 of
               (Inl e, w2) \<Rightarrow> (Inl e, s, w2)
             | (Inr d, w2) \<Rightarrow>
                 (Inr (), s\<lparr>db := Some d, path_to_local_file := Some tempfile\<rparr>, w2)))"

definition s3_open_spider ::
  "('req, 'h) libs \<Rightarrow> string \<Rightarrow> 'a s3storage_scheme \<Rightarrow> world
     \<Rightarrow> (error + unit) \<times> 'a s3storage_scheme \<times> world" where
  "s3_open_spider L tmp s w = s3_prepare_time_machine L tmp s w"

text \<open>
  Reading \<^verbatim>\<open>self.path_to_local_file\<close> before \<^verbatim>\<open>_prepare_time_machine\<close> has
  set it raises \<^verbatim>\<open>AttributeError\<close>.
\<close>

definition s3_finish_time_machine ::
  "('req, 'h) libs \<Rightarrow> 'a s3storage_scheme \<Rightarrow> world
     \<Rightarrow> (error + unit) \<times> 'a s3storage_scheme \<times> world" where
  "s3_finish_time_machine L s w =
     (if snapshot_mode s then
        (case path_to_local_file s of
           None \<Rightarrow> (Inl AttributeError, s, w)
         | Some tf \<Rightarrow>
             (case tempfile_flush tf w of
                (Inl e, w1) \<Rightarrow> (Inl e, s, w1)
              | (Inr u, w1) \<Rightarrow>
                  (case get_netloc_and_path L (snapshot_uri s) of
                     Inl e \<Rightarrow> (Inl e, s, w1)
                   | Inr (s3_bucket, s3_path) \<Rightarrow>
                       (let w2 = emit (S3Upload (tf_name tf) s3_bucket (lstrip_slash s3_path)) w1
                        in case upload_file (s3_client s) (tf_name tf) s3_bucket
                                  (lstrip_slash s3_path) of
                             Some e \<Rightarrow> (Inl e, s, w2)
                           | None \<Rightarrow>
                               (case tempfile_close tf w2 of
                                  (tf', w3) \<Rightarrow>
                                    (Inr (), s\<lparr>path_to_local_file := Some tf'\<rparr>, w3))))))
      else (Inr (), s, w))"

definition s3_close_spider ::
  "('req, 'h) libs \<Rightarrow> 'a s3storage_scheme \<Rightarrow> world
     \<Rightarrow> (error + unit) \<times> 'a s3storage_scheme \<times> world" where
  "s3_close_spider L = close_spider_with (s3_finish_time_machine L)"

section \<open>What the theorems speak about\<close>

text \<open>
  The contract of the three libraries the record goes through, each on its own:
  unpickling a pickle gives the pickled dict back, decompressing compressed bytes gives
  the bytes back, and \<^verbatim>\<open>Headers\<close> built from the plain dict of a
  \<^verbatim>\<open>Headers\<close> object is that object.
\<close>

definition library_roundtrips :: "('req, 'h) libs \<Rightarrow> bool" where
  "library_roundtrips L \<longleftrightarrow>
     (\<forall>d. pickle_loads L (pickle_dumps L d) = Inr d) \<and>
     (\<forall>b. gzip_decompress L (gzip_compress L b) = Inr b) \<and>
     (\<forall>h. Headers L (headers_dict L h) = h)"

text \<open>
  The response with the class \<^verbatim>\<open>responsetypes.from_args\<close> picks for its headers
  and url; status, url, headers and body are those of \<open>r\<close>.
\<close>

definition rebuilt :: "('req, 'h) libs \<Rightarrow> 'h response \<Rightarrow> 'h response" where
  "rebuilt L r = r\<lparr>respcls := from_args L (headers r) (url r)\<rparr>"

text \<open>The events that happened between the world \<open>w\<close> and the later world \<open>w'\<close>.\<close>

definition events_since :: "world \<Rightarrow> world \<Rightarrow> event list" where
  "events_since w w' = drop (length (trace w)) (trace w')"

fun is_transfer :: "event \<Rightarrow> bool" where
  "is_transfer (S3Download b k) = True"
| "is_transfer (S3Upload f b k) = True"
| "is_transfer e = False"

section \<open>Concrete inputs\<close>

text \<open>
  A small serialisation standing in for pickle: a number is that many bytes \<open>1\<close> closed
  by a \<open>0\<close>, an integer is a sign byte and its magnitude, bytes and lists are
  preceded by their length. The decoder reads a value off the front of the input and
  returns the rest; unpickling refuses input with bytes left over.
\<close>

definition enc_nat :: "nat \<Rightarrow> bytes" where
  "enc_nat n = replicate n 1 @ [0]"

definition dec_nat :: "bytes \<Rightarrow> nat \<times> bytes" where
  "dec_nat bs = (length (takeWhile (\<lambda>b. b = 1) bs), drop 1 (dropWhile (\<lambda>b. b = 1) bs))"

definition enc_int :: "int \<Rightarrow> bytes" where
  "enc_int i = (if i < 0 then 1 else 0) # enc_nat (nat \<bar>i\<bar>)"

definition dec_int :: "bytes \<Rightarrow> int \<times> bytes" where
  "dec_int bs =
     (case bs of
        [] \<Rightarrow> (0, [])
      | sg # r \<Rightarrow> (case dec_nat r of (n, r') \<Rightarrow> (if sg = 1 then - int n else int n, r')))"

definition enc_bytes :: "bytes \<Rightarrow> bytes" where
  "enc_bytes bs = enc_nat (length bs) @ bs"

definition dec_bytes :: "bytes \<Rightarrow> bytes \<times> bytes" where
  "dec_bytes xs = (case dec_nat xs of (n, r) \<Rightarrow> (take n r, drop n r))"

definition enc_str :: "string \<Rightarrow> bytes" where
  "enc_str u = enc_bytes (map of_char u)"

definition dec_str :: "bytes \<Rightarrow> string \<times> bytes" where
  "dec_str xs = (case dec_bytes xs of (bs, r) \<Rightarrow> (map (\<lambda>b. char_of (unat b)) bs, r))"

definition enc_many :: "('a \<Rightarrow> bytes) \<Rightarrow> 'a list \<Rightarrow> bytes" where
  "enc_many enc xs = enc_nat (length xs) @ concat (map enc xs)"

fun dec_items :: "(bytes \<Rightarrow> 'a \<times> bytes) \<Rightarrow> nat \<Rightarrow> bytes \<Rightarrow> 'a list \<times> bytes" where
  "dec_items dec 0 bs = ([], bs)"
| "dec_items dec (Suc n) bs =
     (case dec bs of (x, r) \<Rightarrow> (case dec_items dec n r of (xs, r') \<Rightarrow> (x # xs, r')))"

definition dec_many :: "(bytes \<Rightarrow> 'a \<times> bytes) \<Rightarrow> bytes \<Rightarrow> 'a list \<times> bytes" where
  "dec_many dec bs = (case dec_nat bs of (n, r) \<Rightarrow> dec_items dec n r)"

definition enc_header :: "bytes \<times> bytes list \<Rightarrow> bytes" where
  "enc_header h = enc_bytes (fst h) @ enc_many enc_bytes (snd h)"

definition dec_header :: "bytes \<Rightarrow> (bytes \<times> bytes list) \<times> bytes" where
  "dec_header bs =
     (case dec_bytes bs of (k, r) \<Rightarrow> (case dec_many dec_bytes r of (vs, r') \<Rightarrow> ((k, vs), r')))"

definition enc_pickled :: "pickled \<Rightarrow> bytes" where
  "enc_pickled d =
     enc_int (p_status d) @ enc_str (p_url d) @ enc_many enc_header (p_headers d) @
     enc_bytes (p_body d)"

definition dec_pickled :: "bytes \<Rightarrow> error + pickled" where
  "dec_pickled bs =
     (case dec_int bs of (st, r1) \<Rightarrow>
        (case dec_str r1 of (u, r2) \<Rightarrow>
           (case dec_many dec_header r2 of (hs, r3) \<Rightarrow>
              (case dec_bytes r3 of (b, r4) \<Rightarrow>
                 if r4 = []
                 then Inr \<lparr>p_status = st, p_url = u, p_headers = hs, p_body = b\<rparr>
                 else Inl (LibraryError ''unpickling stack underflow'')))))"

text \<open>
  Stand-ins for the libraries, enough to run the model: requests are their own
  fingerprints, compression reverses the bytes, pickling is the serialisation above,
  and a \<^verbatim>\<open>Headers\<close> object is its plain dict.
\<close>

definition sample_libs :: "(string, hdict) libs" where
  "sample_libs =
     \<lparr>request_fingerprint = (\<lambda>q. q),
      gzip_compress = rev,
      gzip_decompress = (\<lambda>b. Inr (rev b)),
      pickle_dumps = enc_pickled,
      pickle_loads = dec_pickled,
      headers_dict = (\<lambda>h. h),
      Headers = (\<lambda>d. d),
      from_args = (\<lambda>h u. ''Response''),
      urlparse = (\<lambda>u. if u = Some ''s3://bucket1/path/snap.db''
                       then Inr (''s3'', ''bucket1'', ''/path/snap.db'')
                       else if u = Some ''s3:///onlypath''
                       then Inr (''s3'', [], ''/onlypath'')
                       else Inr ([], [], []))\<rparr>"

definition sample_response :: "hdict response" where
  "sample_response =
     \<lparr>status = 200, url = ''http://example.com/'', headers = [([67, 84], [[116]])],
      body = [1, 2, 3], respcls = ''HtmlResponse''\<rparr>"

definition other_response :: "hdict response" where
  "other_response =
     \<lparr>status = 404, url = ''http://example.com/gone'', headers = [],
      body = [9], respcls = ''Response''\<rparr>"

definition sample_dbm :: dbm where
  "sample_dbm = \<lparr>dbm_file = ''snap.db'', dbm_closed = False\<rparr>"

definition sample_storage :: storage where
  "sample_storage =
     \<lparr>db = Some sample_dbm, snapshot_uri = Some ''snap.db'', spider = Some ''spider''\<rparr>"

text \<open>A world whose only file is the database \<^verbatim>\<open>snap.db\<close> with the given entries.\<close>

definition world_of :: "entries \<Rightarrow> world" where
  "world_of es = \<lparr>files = [''snap.db'' \<mapsto> Database es], trace = []\<rparr>"

text \<open>An S3 client whose calls all succeed, and one whose calls all fail.\<close>

definition ok_client :: s3client where
  "ok_client =
     \<lparr>download_fileobj = (\<lambda>b k. Inr (Database [])), upload_file = (\<lambda>f b k. None)\<rparr>"

definition failing_client :: s3client where
  "failing_client =
     \<lparr>download_fileobj = (\<lambda>b k. Inl (LibraryError ''download failed'')),
      upload_file = (\<lambda>f b k. Some (LibraryError ''upload failed''))\<rparr>"

text \<open>A remote session as it is before and after \<^verbatim>\<open>open_spider\<close>.\<close>

definition sample_tempfile :: tempfile where
  "sample_tempfile = \<lparr>tf_name = ''/tmp/t.db'', tf_closed = False\<rparr>"

definition s3_session :: "s3client \<Rightarrow> string \<Rightarrow> bool \<Rightarrow> bool \<Rightarrow> s3storage" where
  "s3_session c uri r sn =
     \<lparr>db = None, snapshot_uri = Some uri, spider = None,
      s3_uri = Some uri, s3_client = c, retrieve_mode = r, snapshot_mode = sn,
      path_to_local_file = None\<rparr>"

definition s3_opened :: "s3client \<Rightarrow> string \<Rightarrow> bool \<Rightarrow> bool \<Rightarrow> s3storage" where
  "s3_opened c uri r sn =
     (s3_session c uri r sn)
       \<lparr>db := Some \<lparr>dbm_file = ''/tmp/t.db'', dbm_closed = False\<rparr>,
        path_to_local_file := Some sample_tempfile\<rparr>"

text \<open>A world whose only file is the staging file, a database with the given entries.\<close>

definition tmp_world :: "entries \<Rightarrow> world" where
  "tmp_world es = \<lparr>files = [''/tmp/t.db'' \<mapsto> Database es], trace = []\<rparr>"

definition empty_world :: world where
  "empty_world = \<lparr>files = Map.empty, trace = []\<rparr>"

text \<open>The two entries one \<^verbatim>\<open>store_response\<close> of the sample response leaves.\<close>

definition stored_entries :: entries where
  "stored_entries =
     [(''abc_data'', encode_record sample_libs sample_response),
      (''abc_time'', str_bytes ''1.5'')]"

definition good_uri :: string where
  "good_uri = ''s3://bucket1/path/snap.db''"

section \<open>Facts about the serialisation\<close>

lemma dec_enc_nat: "dec_nat (enc_nat n @ rest) = (n, rest)"
proof -
  have t: "takeWhile (\<lambda>b. b = 1) (replicate n (1::8 word) @ 0 # rest) = replicate n 1"
    by (induction n) simp_all
  have d: "dropWhile (\<lambda>b. b = 1) (replicate n (1::8 word) @ 0 # rest) = 0 # rest"
    by (induction n) simp_all
  show ?thesis by (simp add: dec_nat_def enc_nat_def t d)
qed

lemma dec_enc_int: "dec_int (enc_int i @ rest) = (i, rest)"
  by (simp add: dec_int_def enc_int_def dec_enc_nat)

lemma dec_enc_bytes: "dec_bytes (enc_bytes bs @ rest) = (bs, rest)"
  by (simp add: dec_bytes_def enc_bytes_def dec_enc_nat)

lemma char_of_byte: "char_of (unat (of_char c :: 8 word)) = c"
proof -
  have "(of_char c :: 8 word) = of_nat (of_char c)"
    by (simp only: of_nat_of_char)
  then have "unat (of_char c :: 8 word) = of_char c mod 256"
    by (simp only: unat_of_nat) simp
  then show ?thesis by simp
qed

lemma dec_enc_str: "dec_str (enc_str u @ rest) = (u, rest)"
  by (simp add: dec_str_def enc_str_def dec_enc_bytes comp_def char_of_byte)

lemma dec_enc_items:
  assumes "\<And>x r. x \<in> set xs \<Longrightarrow> dec (enc x @ r) = (x, r)"
  shows "dec_items dec (length xs) (concat (map enc xs) @ rest) = (xs, rest)"
  using assms by (induction xs arbitrary: rest) simp_all

lemma dec_enc_many:
  assumes "\<And>x r. x \<in> set xs \<Longrightarrow> dec (enc x @ r) = (x, r)"
  shows "dec_many dec (enc_many enc xs @ rest) = (xs, rest)"
  using dec_enc_items [of xs dec enc rest] assms
  by (simp add: dec_many_def enc_many_def dec_enc_nat)

lemma dec_enc_header: "dec_header (enc_header h @ rest) = (h, rest)"
  by (simp add: dec_header_def enc_header_def dec_enc_bytes dec_enc_many)

lemma dec_enc_pickled: "dec_pickled (enc_pickled d) = Inr d"
proof -
  have "dec_many dec_header (enc_many enc_header (p_headers d) @ enc_bytes (p_body d))
          = (p_headers d, enc_bytes (p_body d))"
    by (rule dec_enc_many) (rule dec_enc_header)
  moreover have "dec_bytes (enc_bytes (p_body d)) = (p_body d, [])"
    using dec_enc_bytes [of "p_body d" "[]"] by simp
  ultimately show ?thesis
    by (simp add: dec_pickled_def enc_pickled_def dec_enc_int dec_enc_str)
qed

lemma sample_libs_roundtrip: "library_roundtrips sample_libs"
  by (simp add: library_roundtrips_def sample_libs_def dec_enc_pickled)

section \<open>Facts about the store\<close>

text \<open>The payload key of one fingerprint is never the timestamp key of another.\<close>

lemma data_time_keys_differ: "k @ ''_data'' \<noteq> k' @ ''_time''"
proof
  assume "k @ ''_data'' = k' @ ''_time''"
  then have "last (k @ ''_data'') = last (k' @ ''_time'')" by simp
  then show False by simp
qed

lemma map_of_upsert: "map_of (upsert k v es) k' = (if k' = k then Some v else map_of es k')"
  by (induction es) auto

lemma upsert_not_Nil: "upsert k v es \<noteq> []"
  by (cases es) (auto split: if_splits)

lemma dbm_entries_emit: "dbm_entries d (emit e w) = dbm_entries d w"
  by (simp add: dbm_entries_def emit_def)

text \<open>
  Decoding undoes encoding: the dict \<^verbatim>\<open>store_response\<close> pickles holds the four
  fields, and \<^verbatim>\<open>retrieve_response\<close> reads each back from its key.
\<close>

lemma decode_encode:
  assumes "library_roundtrips L"
  shows "decode_record L (encode_record L r) = Inr (rebuilt L r)"
proof -
  have p: "pickle_loads L (pickle_dumps L d) = Inr d" for d
    using assms by (simp add: library_roundtrips_def)
  have g: "gzip_decompress L (gzip_compress L b) = Inr b" for b
    using assms by (simp add: library_roundtrips_def)
  have h: "Headers L (headers_dict L x) = x" for x
    using assms by (simp add: library_roundtrips_def)
  show ?thesis
    by (cases r)
       (simp add: decode_record_def encode_record_def build_response_def rebuilt_def
          Let_def p g h)
qed

lemma store_open:
  assumes "db s = Some d" "\<not> dbm_closed d"
  shows "store_response L s q r now w =
    (Inr (),
     w\<lparr>files := (files w)(dbm_file d \<mapsto> Database
          (upsert (request_key L q @ ''_time'') (str_bytes now)
            (upsert (request_key L q @ ''_data'') (encode_record L r) (dbm_entries d w)))),
       trace := trace w @
          [DbmPut (dbm_file d) (request_key L q @ ''_data'') (encode_record L r),
           DbmPut (dbm_file d) (request_key L q @ ''_time'') (str_bytes now)]\<rparr>)"
  using assms
  by (simp add: store_response_def dbm_setitem_def emit_def dbm_entries_def Let_def)

lemma retrieve_open:
  assumes "db s = Some d" "\<not> dbm_closed d"
  shows "retrieve_response L s q w =
    (case map_of (dbm_entries d w) (request_key L q @ ''_time'') of
       None \<Rightarrow> (Inr None, emit (DbmContains (dbm_file d) (request_key L q @ ''_time'')) w)
     | Some t \<Rightarrow>
         (case map_of (dbm_entries d w) (request_key L q @ ''_data'') of
            None \<Rightarrow>
              (Inl (KeyError (request_key L q @ ''_data'')),
               emit (DbmGet (dbm_file d) (request_key L q @ ''_data''))
                 (emit (DbmContains (dbm_file d) (request_key L q @ ''_time'')) w))
          | Some blob \<Rightarrow>
              (case decode_record L blob of
                 Inl e \<Rightarrow> Inl e
               | Inr r \<Rightarrow> Inr (Some r),
               emit (DbmGet (dbm_file d) (request_key L q @ ''_data''))
                 (emit (DbmContains (dbm_file d) (request_key L q @ ''_time'')) w))))"
  using assms
  by (simp add: retrieve_response_def read_data_def dbm_contains_def dbm_getitem_def
      decode_record_def dbm_entries_emit Let_def split: option.splits sum.splits)

lemma entries_after_store:
  assumes "db s = Some d" "\<not> dbm_closed d"
  shows "dbm_entries d (snd (store_response L s q r now w)) =
           upsert (request_key L q @ ''_time'') (str_bytes now)
             (upsert (request_key L q @ ''_data'') (encode_record L r) (dbm_entries d w))"
  using assms by (simp add: store_open dbm_entries_def)

lemma sample_open:
  "db sample_storage = Some sample_dbm" "\<not> dbm_closed sample_dbm"
  by (simp_all add: sample_storage_def sample_dbm_def)

section \<open>The record codec\<close>

text \<open>
  Claim C2. Decoding what \<^verbatim>\<open>store_response\<close> encodes gives the response back:
  whenever pickle, gzip and \<^verbatim>\<open>Headers\<close> each undo themselves, \<open>decode_record\<close> of
  \<open>encode_record\<close> succeeds for every response with the same status, url, headers and
  body, the body having gone through compression and decompression.
\<close>

theorem decode_encode_roundtrip:
  assumes "library_roundtrips L"
  shows "\<exists>r'. decode_record L (encode_record L r) = Inr r' \<and>
           status r' = status r \<and> url r' = url r \<and>
           headers r' = headers r \<and> body r' = body r"
  using decode_encode [OF assms, of r] by (simp add: rebuilt_def)

theorem decode_encode_roundtrip_witness:
  "library_roundtrips sample_libs \<and>
   (\<exists>r'. decode_record sample_libs (encode_record sample_libs sample_response) = Inr r' \<and>
      status r' = 200 \<and> url r' = ''http://example.com/'' \<and>
      headers r' = [([67, 84], [[116]])] \<and> body r' = [1, 2, 3])"
  using sample_libs_roundtrip
    decode_encode_roundtrip [OF sample_libs_roundtrip, of sample_response]
  by (simp add: sample_response_def)

section \<open>Storing and retrieving\<close>

text \<open>
  Claim C1. On an open session, whenever pickle, gzip and \<^verbatim>\<open>Headers\<close> each undo
  themselves, for every request (hence every fingerprint) and every response
  \<^verbatim>\<open>store_response\<close> succeeds and a following \<^verbatim>\<open>retrieve_response\<close> of the same
  request returns a response with the same status, url, headers and body.
\<close>

theorem store_then_retrieve:
  assumes "db s = Some d" "\<not> dbm_closed d" "library_roundtrips L"
  shows "fst (store_response L s q r now w) = Inr () \<and>
         (\<exists>r'. fst (retrieve_response L s q (snd (store_response L s q r now w)))
                  = Inr (Some r') \<and>
            status r' = status r \<and> url r' = url r \<and>
            headers r' = headers r \<and> body r' = body r)"
proof -
  have st: "fst (store_response L s q r now w) = Inr ()"
    using assms(1,2) by (simp add: store_open)
  have "fst (retrieve_response L s q (snd (store_response L s q r now w)))
          = Inr (Some (rebuilt L r))"
    using assms(1,2) decode_encode [OF assms(3), of r]
    by (simp add: retrieve_open entries_after_store map_of_upsert data_time_keys_differ)
  then show ?thesis using st by (simp add: rebuilt_def)
qed

theorem store_then_retrieve_witness:
  "db sample_storage = Some sample_dbm \<and> \<not> dbm_closed sample_dbm \<and>
   library_roundtrips sample_libs \<and>
   fst (store_response sample_libs sample_storage ''abc'' sample_response
          ''1700000000.5'' (world_of [])) = Inr () \<and>
   (\<exists>r'. fst (retrieve_response sample_libs sample_storage ''abc''
              (snd (store_response sample_libs sample_storage ''abc'' sample_response
                      ''1700000000.5'' (world_of []))))
            = Inr (Some r') \<and>
      status r' = 200 \<and> url r' = ''http://example.com/'' \<and>
      headers r' = [([67, 84], [[116]])] \<and> body r' = [1, 2, 3])"
  using sample_open sample_libs_roundtrip
    store_then_retrieve [OF sample_open sample_libs_roundtrip,
      of "''abc''" sample_response "''1700000000.5''" "world_of []"]
  by (simp add: sample_response_def)

text \<open>
  Claim C3. On an open session, whenever pickle, gzip and \<^verbatim>\<open>Headers\<close> each undo
  themselves, storing \<open>a\<close> and then \<open>b\<close> for the same request and retrieving it
  returns \<open>b\<close>: the status, url, headers and body are those of \<open>b\<close>, whatever \<open>a\<close>
  was.
\<close>

theorem store_overwrites:
  assumes "db s = Some d" "\<not> dbm_closed d" "library_roundtrips L"
  shows "\<exists>r'. fst (retrieve_response L s q
                  (snd (store_response L s q b now2
                     (snd (store_response L s q a now1 w)))))
                = Inr (Some r') \<and>
           status r' = status b \<and> url r' = url b \<and>
           headers r' = headers b \<and> body r' = body b"
proof -
  have "fst (retrieve_response L s q
               (snd (store_response L s q b now2 (snd (store_response L s q a now1 w)))))
          = Inr (Some (rebuilt L b))"
    using assms(1,2) decode_encode [OF assms(3), of b]
    by (simp add: retrieve_open entries_after_store map_of_upsert data_time_keys_differ)
  then show ?thesis by (simp add: rebuilt_def)
qed

theorem store_overwrites_witness:
  "db sample_storage = Some sample_dbm \<and> \<not> dbm_closed sample_dbm \<and>
   library_roundtrips sample_libs \<and>
   (\<exists>r'. fst (retrieve_response sample_libs sample_storage ''abc''
              (snd (store_response sample_libs sample_storage ''abc'' other_response ''2.0''
                 (snd (store_response sample_libs sample_storage ''abc'' sample_response ''1.0''
                    (world_of []))))))
            = Inr (Some r') \<and>
      status r' = 404 \<and> url r' = ''http://example.com/gone'' \<and>
      headers r' = [] \<and> body r' = [9])"
  using sample_open sample_libs_roundtrip
    store_overwrites [OF sample_open sample_libs_roundtrip,
      of "''abc''" other_response "''2.0''" sample_response "''1.0''" "world_of []"]
  by (simp add: other_response_def)

text \<open>
  Claim C4. On an open session \<^verbatim>\<open>retrieve_response\<close> begins with the lookup of the
  timestamp key; when that key is not in the store it returns \<^verbatim>\<open>None\<close> and that
  lookup is all it did, so the payload key is not read, whether it is there or not.
\<close>

theorem retrieve_absent_timestamp:
  assumes "db s = Some d" "\<not> dbm_closed d"
  shows "take 1 (events_since w (snd (retrieve_response L s q w)))
           = [DbmContains (dbm_file d) (request_key L q @ ''_time'')] \<and>
         (map_of (dbm_entries d w) (request_key L q @ ''_time'') = None \<longrightarrow>
            retrieve_response L s q w =
              (Inr None, emit (DbmContains (dbm_file d) (request_key L q @ ''_time'')) w))"
  using assms
  by (simp add: retrieve_open events_since_def emit_def split: option.splits)

theorem retrieve_absent_timestamp_witness:
  "db sample_storage = Some sample_dbm \<and> \<not> dbm_closed sample_dbm \<and>
   map_of (dbm_entries sample_dbm (world_of [(''abc_data'', [7])])) ''abc_time'' = None \<and>
   map_of (dbm_entries sample_dbm (world_of [(''abc_data'', [7])])) ''abc_data'' = Some [7] \<and>
   retrieve_response sample_libs sample_storage ''abc'' (world_of [(''abc_data'', [7])]) =
     (Inr None,
      \<lparr>files = [''snap.db'' \<mapsto> Database [(''abc_data'', [7])]],
       trace = [DbmContains ''snap.db'' ''abc_time'']\<rparr>)"
  using sample_open
    retrieve_absent_timestamp [OF sample_open,
      of "world_of [(''abc_data'', [7])]" sample_libs "''abc''"]
  by (simp add: world_of_def dbm_entries_def sample_dbm_def sample_libs_def
      request_key_def emit_def)

text \<open>
  Claim C10. On an open session, when the store holds the timestamp key of a request
  and not its payload key, \<^verbatim>\<open>retrieve_response\<close> raises \<^verbatim>\<open>KeyError\<close> for the
  payload key, which it reads once the timestamp key has been found.
\<close>

theorem retrieve_payload_missing:
  assumes "db s = Some d" "\<not> dbm_closed d"
    and "map_of (dbm_entries d w) (request_key L q @ ''_time'') = Some t"
    and "map_of (dbm_entries d w) (request_key L q @ ''_data'') = None"
  shows "retrieve_response L s q w =
           (Inl (KeyError (request_key L q @ ''_data'')),
            emit (DbmGet (dbm_file d) (request_key L q @ ''_data''))
              (emit (DbmContains (dbm_file d) (request_key L q @ ''_time'')) w))"
  using assms by (simp add: retrieve_open)

theorem retrieve_payload_missing_witness:
  "db sample_storage = Some sample_dbm \<and> \<not> dbm_closed sample_dbm \<and>
   map_of (dbm_entries sample_dbm (world_of [(''abc_time'', [49])])) ''abc_time'' = Some [49] \<and>
   map_of (dbm_entries sample_dbm (world_of [(''abc_time'', [49])])) ''abc_data'' = None \<and>
   fst (retrieve_response sample_libs sample_storage ''abc'' (world_of [(''abc_time'', [49])]))
     = Inl (KeyError ''abc_data'')"
proof -
  have t: "map_of (dbm_entries sample_dbm (world_of [(''abc_time'', [49])]))
             (request_key sample_libs ''abc'' @ ''_time'') = Some [49]"
    by (simp add: world_of_def dbm_entries_def sample_dbm_def sample_libs_def request_key_def)
  have p: "map_of (dbm_entries sample_dbm (world_of [(''abc_time'', [49])]))
             (request_key sample_libs ''abc'' @ ''_data'') = None"
    by (simp add: world_of_def dbm_entries_def sample_dbm_def sample_libs_def request_key_def)
  show ?thesis
    using sample_open t p retrieve_payload_missing [OF sample_open t p]
    by (simp add: sample_libs_def request_key_def)
qed

text \<open>
  Claim C5. On an open session \<^verbatim>\<open>store_response\<close> makes exactly two writes, first
  the encoded record under the fingerprint followed by \<^verbatim>\<open>_data\<close>, then the text of
  the clock reading under the fingerprint followed by \<^verbatim>\<open>_time\<close>; afterwards the
  store holds these two values and every other key is as before.
\<close>

theorem store_writes_payload_then_timestamp:
  assumes "db s = Some d" "\<not> dbm_closed d"
  shows "fst (store_response L s q r now w) = Inr () \<and>
         events_since w (snd (store_response L s q r now w)) =
           [DbmPut (dbm_file d) (request_fingerprint L q @ ''_data'') (encode_record L r),
            DbmPut (dbm_file d) (request_fingerprint L q @ ''_time'') (str_bytes now)] \<and>
         map_of (dbm_entries d (snd (store_response L s q r now w))) =
           (map_of (dbm_entries d w))
             (request_fingerprint L q @ ''_data'' \<mapsto> encode_record L r,
              request_fingerprint L q @ ''_time'' \<mapsto> str_bytes now)"
  using assms
  by (auto simp add: store_open events_since_def dbm_entries_def request_key_def
      map_of_upsert fun_eq_iff)

theorem store_writes_payload_then_timestamp_witness:
  "db sample_storage = Some sample_dbm \<and> \<not> dbm_closed sample_dbm \<and>
   store_response sample_libs sample_storage ''abc'' sample_response ''1.5'' (world_of []) =
     (Inr (),
      \<lparr>files = [''snap.db'' \<mapsto> Database
                 [(''abc_data'', encode_record sample_libs sample_response),
                  (''abc_time'', [49, 46, 53])]],
       trace = [DbmPut ''snap.db'' ''abc_data'' (encode_record sample_libs sample_response),
                DbmPut ''snap.db'' ''abc_time'' [49, 46, 53]]\<rparr>)"
proof -
  have "events_since (world_of [])
          (snd (store_response sample_libs sample_storage ''abc'' sample_response ''1.5''
                  (world_of []))) =
        [DbmPut ''snap.db'' ''abc_data'' (encode_record sample_libs sample_response),
         DbmPut ''snap.db'' ''abc_time'' [49, 46, 53]]"
    using store_writes_payload_then_timestamp [OF sample_open,
        of sample_libs "''abc''" sample_response "''1.5''" "world_of []"]
    by (simp add: sample_libs_def sample_dbm_def str_bytes_def)
  then show ?thesis
    using sample_open
    by (simp add: store_open [OF sample_open] world_of_def sample_libs_def
        sample_dbm_def str_bytes_def request_key_def dbm_entries_def events_since_def)
qed

section \<open>Opening a local session\<close>

text \<open>
  Claim C9. When \<^verbatim>\<open>snapshot_uri\<close> of a local session is unset or the empty string,
  \<^verbatim>\<open>open_spider\<close> raises \<^verbatim>\<open>CloseSpider("Snapshot uri not configured.")\<close> and the
  world is as it was: no database file has been opened or created.
\<close>

theorem open_unconfigured:
  assumes "snapshot_uri s = None \<or> snapshot_uri s = Some []"
  shows "open_spider s sp w =
           (Inl (CloseSpider ''Snapshot uri not configured.''), s\<lparr>spider := Some sp\<rparr>, w)"
  using assms by (auto simp add: open_spider_def prepare_time_machine_def)

theorem open_unconfigured_witness:
  "(snapshot_uri init_storage = None \<or> snapshot_uri init_storage = Some []) \<and>
   open_spider init_storage ''spider'' \<lparr>files = Map.empty, trace = []\<rparr> =
     (Inl (CloseSpider ''Snapshot uri not configured.''),
      \<lparr>db = None, snapshot_uri = None, spider = Some ''spider''\<rparr>,
      \<lparr>files = Map.empty, trace = []\<rparr>)"
proof -
  have h: "snapshot_uri init_storage = None \<or> snapshot_uri init_storage = Some []"
    by (simp add: init_storage_def)
  show ?thesis
    using h open_unconfigured [OF h, of "''spider''" "\<lparr>files = Map.empty, trace = []\<rparr>"]
    by (simp add: init_storage_def)
qed

text \<open>
  \<^verbatim>\<open>snapshot_uri\<close> is what \<^verbatim>\<open>set_uri\<close> left: the data directory of the
  uri's directory, joined with the uri's file name. \<^verbatim>\<open>open_spider\<close> after
  \<^verbatim>\<open>set_uri\<close> raises \<^verbatim>\<open>CloseSpider\<close> when that join is empty and goes on to
  \<^verbatim>\<open>dbm.open\<close> there otherwise.
\<close>

lemma set_uri_then_open:
  assumes "percent_format P uri ps = Inr u"
  shows "\<exists>s1 w1. set_uri P s uri ps w = (Inr (), s1, w1) \<and>
           snapshot_uri s1 =
             Some (join P (data_path P (dirname P (file_uri_to_path P u)))
                     (basename P (file_uri_to_path P u))) \<and>
           (fst (open_spider s1 sp w1) = Inl (CloseSpider ''Snapshot uri not configured.'')
              \<longleftrightarrow> join P (data_path P (dirname P (file_uri_to_path P u)))
                     (basename P (file_uri_to_path P u)) = [])"
  using assms
  by (simp add: set_uri_def open_spider_def prepare_time_machine_def dbm_open_def Let_def
      split: option.splits content.splits)

section \<open>Facts about closing and the remote session\<close>

text \<open>
  \<^verbatim>\<open>close_spider\<close> by the state of \<^verbatim>\<open>self.db\<close>: unset, closed, open and
  empty, open with entries.
\<close>

lemma close_spider_with_cases:
  "close_spider_with finish s w =
     (case db s of
        None \<Rightarrow> finish s w
      | Some d \<Rightarrow>
          if dbm_closed d then (Inl (DbmError closed_msg), s, emit (DbmLen (dbm_file d)) w)
          else if dbm_entries d w = [] then finish s (emit (DbmLen (dbm_file d)) w)
          else finish (s\<lparr>db := Some (d\<lparr>dbm_closed := True\<rparr>)\<rparr>)
                 (emit (DbmClose (dbm_file d)) (emit (DbmLen (dbm_file d)) w)))"
  by (simp add: close_spider_with_def dbm_bool_def dbm_close_def Let_def split: option.splits)

lemma close_spider_with_open:
  assumes "db s = Some d" "\<not> dbm_closed d"
  shows "close_spider_with finish s w =
     (if dbm_entries d w = [] then finish s (emit (DbmLen (dbm_file d)) w)
      else finish (s\<lparr>db := Some (d\<lparr>dbm_closed := True\<rparr>)\<rparr>)
             (emit (DbmClose (dbm_file d)) (emit (DbmLen (dbm_file d)) w)))"
  using assms by (simp add: close_spider_with_cases)

lemma s3_finish_no_snapshot:
  "\<not> snapshot_mode s \<Longrightarrow> s3_finish_time_machine L s w = (Inr (), s, w)"
  by (simp add: s3_finish_time_machine_def)

lemma s3_finish_run:
  assumes "snapshot_mode s" "path_to_local_file s = Some tf" "\<not> tf_closed tf"
    and "get_netloc_and_path L (snapshot_uri s) = Inr (bucket, path)"
  shows "s3_finish_time_machine L s w =
     (case upload_file (s3_client s) (tf_name tf) bucket (lstrip_slash path) of
        Some e \<Rightarrow>
          (Inl e, s,
           w\<lparr>trace := trace w @ [TempfileFlush (tf_name tf),
                S3Upload (tf_name tf) bucket (lstrip_slash path)]\<rparr>)
      | None \<Rightarrow>
          (Inr (), s\<lparr>path_to_local_file := Some (tf\<lparr>tf_closed := True\<rparr>)\<rparr>,
           w\<lparr>trace := trace w @ [TempfileFlush (tf_name tf),
                S3Upload (tf_name tf) bucket (lstrip_slash path),
                TempfileClose (tf_name tf)]\<rparr>))"
  using assms
  by (simp add: s3_finish_time_machine_def tempfile_flush_def tempfile_close_def emit_def
      Let_def split: option.splits)

lemma good_location:
  "get_netloc_and_path sample_libs (Some good_uri) = Inr (''bucket1'', ''/path/snap.db'')"
  by (simp add: get_netloc_and_path_def sample_libs_def good_uri_def)

lemma opened_fields:
  "db (s3_opened c u r sn) = Some \<lparr>dbm_file = ''/tmp/t.db'', dbm_closed = False\<rparr>"
  "path_to_local_file (s3_opened c u r sn) = Some sample_tempfile"
  "snapshot_uri (s3_opened c u r sn) = Some u"
  "snapshot_mode (s3_opened c u r sn) = sn"
  "retrieve_mode (s3_opened c u r sn) = r"
  "s3_client (s3_opened c u r sn) = c"
  by (simp_all add: s3_opened_def s3_session_def)

lemma stored_entries_not_Nil: "stored_entries \<noteq> []"
  by (simp add: stored_entries_def)

lemma local_first_close:
  "close_spider sample_storage (world_of stored_entries) =
     (Inr (),
      sample_storage\<lparr>db := Some (sample_dbm\<lparr>dbm_closed := True\<rparr>)\<rparr>,
      \<lparr>files = [''snap.db'' \<mapsto> Database stored_entries],
       trace = [DbmLen ''snap.db'', DbmClose ''snap.db'']\<rparr>)"
  by (simp add: close_spider_def close_spider_with_cases finish_time_machine_def
      sample_storage_def sample_dbm_def world_of_def stored_entries_not_Nil dbm_entries_def
      emit_def)

section \<open>Closing a session twice\<close>

text \<open>
  Claim C6 says that a second \<^verbatim>\<open>close_spider\<close> after one that returned does not
  raise and attempts no second upload or download. The code raises: on a local session
  whose database holds one stored response the first \<^verbatim>\<open>close_spider\<close> returns,
  having closed the database, and the second raises \<^verbatim>\<open>dbm.error\<close>, because
  \<^verbatim>\<open>if self.db:\<close> asks the closed dbm object for its length instead of testing
  for \<^verbatim>\<open>None\<close>. The second call makes that one call and no other.
\<close>

theorem second_close_raises:
  "fst (close_spider sample_storage (world_of stored_entries)) = Inr () \<and>
   close_spider
       (fst (snd (close_spider sample_storage (world_of stored_entries))))
       (snd (snd (close_spider sample_storage (world_of stored_entries)))) =
     (Inl (DbmError ''DBM object has already been closed''),
      sample_storage\<lparr>db := Some (sample_dbm\<lparr>dbm_closed := True\<rparr>)\<rparr>,
      \<lparr>files = [''snap.db'' \<mapsto> Database stored_entries],
       trace = [DbmLen ''snap.db'', DbmClose ''snap.db'', DbmLen ''snap.db'']\<rparr>)"
  by (simp add: local_first_close)
     (simp add: close_spider_def close_spider_with_cases sample_storage_def closed_msg_def
        sample_dbm_def emit_def)

section \<open>Closing a remote session\<close>

text \<open>
  Claim C7, as the code has it. For an open remote session with a valid location,
  \<^verbatim>\<open>close_spider\<close> first takes the length of the database and closes it when it has
  entries; then, with \<^verbatim>\<open>snapshot_mode\<close> on and an upload that succeeds, it returns,
  having flushed the staging file, uploaded it and then closed it; with
  \<^verbatim>\<open>snapshot_mode\<close> on and an upload that raises, that error is what
  \<^verbatim>\<open>close_spider\<close> raises; with \<^verbatim>\<open>snapshot_mode\<close> off it returns and attempts
  no upload or download.
\<close>

theorem s3_close_releases_after_upload:
  assumes "db s = Some d" "\<not> dbm_closed d"
    and "path_to_local_file s = Some tf" "\<not> tf_closed tf"
    and "get_netloc_and_path L (snapshot_uri s) = Inr (bucket, path)"
  shows "(snapshot_mode s \<and>
            upload_file (s3_client s) (tf_name tf) bucket (lstrip_slash path) = None \<longrightarrow>
            fst (s3_close_spider L s w) = Inr () \<and>
            path_to_local_file (fst (snd (s3_close_spider L s w)))
              = Some (tf\<lparr>tf_closed := True\<rparr>) \<and>
            events_since w (snd (snd (s3_close_spider L s w))) =
              DbmLen (dbm_file d) #
              (if dbm_entries d w = [] then [] else [DbmClose (dbm_file d)]) @
              [TempfileFlush (tf_name tf),
               S3Upload (tf_name tf) bucket (lstrip_slash path),
               TempfileClose (tf_name tf)]) \<and>
         (\<forall>e. snapshot_mode s \<and>
            upload_file (s3_client s) (tf_name tf) bucket (lstrip_slash path) = Some e \<longrightarrow>
            fst (s3_close_spider L s w) = Inl e) \<and>
         (\<not> snapshot_mode s \<longrightarrow>
            fst (s3_close_spider L s w) = Inr () \<and>
            filter is_transfer (events_since w (snd (snd (s3_close_spider L s w)))) = [])"
proof (cases "snapshot_mode s")
  case False
  then show ?thesis
    using assms(1,2)
    by (simp add: s3_close_spider_def close_spider_with_open s3_finish_no_snapshot
        events_since_def emit_def)
next
  case True
  have r1: "s3_finish_time_machine L s w =
     (case upload_file (s3_client s) (tf_name tf) bucket (lstrip_slash path) of
        Some e \<Rightarrow>
          (Inl e, s,
           w\<lparr>trace := trace w @ [TempfileFlush (tf_name tf),
                S3Upload (tf_name tf) bucket (lstrip_slash path)]\<rparr>)
      | None \<Rightarrow>
          (Inr (), s\<lparr>path_to_local_file := Some (tf\<lparr>tf_closed := True\<rparr>)\<rparr>,
           w\<lparr>trace := trace w @ [TempfileFlush (tf_name tf),
                S3Upload (tf_name tf) bucket (lstrip_slash path),
                TempfileClose (tf_name tf)]\<rparr>))" for w
    by (rule s3_finish_run [OF True assms(3,4,5)])
  let ?s' = "s\<lparr>db := Some (d\<lparr>dbm_closed := True\<rparr>)\<rparr>"
  have r2: "s3_finish_time_machine L ?s' w =
     (case upload_file (s3_client s) (tf_name tf) bucket (lstrip_slash path) of
        Some e \<Rightarrow>
          (Inl e, ?s',
           w\<lparr>trace := trace w @ [TempfileFlush (tf_name tf),
                S3Upload (tf_name tf) bucket (lstrip_slash path)]\<rparr>)
      | None \<Rightarrow>
          (Inr (), ?s'\<lparr>path_to_local_file := Some (tf\<lparr>tf_closed := True\<rparr>)\<rparr>,
           w\<lparr>trace := trace w @ [TempfileFlush (tf_name tf),
                S3Upload (tf_name tf) bucket (lstrip_slash path),
                TempfileClose (tf_name tf)]\<rparr>))" for w
    using s3_finish_run [of ?s' tf L bucket path w] True assms(3,4,5) by simp
  show ?thesis
  proof (cases "dbm_entries d w = []")
    case e: True
    then have "s3_close_spider L s w =
        s3_finish_time_machine L s (emit (DbmLen (dbm_file d)) w)"
      using assms(1,2) by (simp add: s3_close_spider_def close_spider_with_open)
    then show ?thesis using True e
      by (simp add: r1 events_since_def emit_def split: option.splits)
  next
    case e: False
    then have "s3_close_spider L s w =
        s3_finish_time_machine L ?s'
          (emit (DbmClose (dbm_file d)) (emit (DbmLen (dbm_file d)) w))"
      using assms(1,2) by (simp add: s3_close_spider_def close_spider_with_open)
    then show ?thesis using True e
      by (simp add: r2 events_since_def emit_def split: option.splits)
  qed
qed

text \<open>
  Claim C7 as stated fails: with \<^verbatim>\<open>snapshot_mode\<close> off \<^verbatim>\<open>close_spider\<close>
  returns with the staging file still open and no call made on it, and with
  \<^verbatim>\<open>snapshot_mode\<close> on and a failing upload it raises with the staging file still
  open, the flush and the upload being its last calls.
\<close>

theorem s3_close_releases_after_upload_counterexample:
  "fst (s3_close_spider sample_libs (s3_opened ok_client good_uri False False)
          (tmp_world stored_entries)) = Inr () \<and>
   path_to_local_file
     (fst (snd (s3_close_spider sample_libs (s3_opened ok_client good_uri False False)
                  (tmp_world stored_entries))))
     = Some \<lparr>tf_name = ''/tmp/t.db'', tf_closed = False\<rparr> \<and>
   trace (snd (snd (s3_close_spider sample_libs (s3_opened ok_client good_uri False False)
                      (tmp_world stored_entries))))
     = [DbmLen ''/tmp/t.db'', DbmClose ''/tmp/t.db''] \<and>
   fst (s3_close_spider sample_libs (s3_opened failing_client good_uri False True)
          (tmp_world stored_entries)) = Inl (LibraryError ''upload failed'') \<and>
   path_to_local_file
     (fst (snd (s3_close_spider sample_libs (s3_opened failing_client good_uri False True)
                  (tmp_world stored_entries))))
     = Some \<lparr>tf_name = ''/tmp/t.db'', tf_closed = False\<rparr> \<and>
   trace (snd (snd (s3_close_spider sample_libs (s3_opened failing_client good_uri False True)
                      (tmp_world stored_entries))))
     = [DbmLen ''/tmp/t.db'', DbmClose ''/tmp/t.db'', TempfileFlush ''/tmp/t.db'',
        S3Upload ''/tmp/t.db'' ''bucket1'' ''path/snap.db'']"
  by (simp add: s3_close_spider_def close_spider_with_cases opened_fields
      s3_finish_time_machine_def good_location tempfile_flush_def tempfile_close_def
      sample_tempfile_def failing_client_def ok_client_def tmp_world_def
      stored_entries_not_Nil dbm_entries_def emit_def lstrip_slash_def Let_def)

theorem s3_close_releases_after_upload_witness:
  "db (s3_opened ok_client good_uri False True)
     = Some \<lparr>dbm_file = ''/tmp/t.db'', dbm_closed = False\<rparr> \<and>
   path_to_local_file (s3_opened ok_client good_uri False True) = Some sample_tempfile \<and>
   \<not> tf_closed sample_tempfile \<and>
   get_netloc_and_path sample_libs (snapshot_uri (s3_opened ok_client good_uri False True))
     = Inr (''bucket1'', ''/path/snap.db'') \<and>
   snapshot_mode (s3_opened ok_client good_uri False True) \<and>
   upload_file ok_client ''/tmp/t.db'' ''bucket1'' ''path/snap.db'' = None \<and>
   fst (s3_close_spider sample_libs (s3_opened ok_client good_uri False True)
          (tmp_world stored_entries)) = Inr () \<and>
   path_to_local_file
     (fst (snd (s3_close_spider sample_libs (s3_opened ok_client good_uri False True)
                  (tmp_world stored_entries))))
     = Some \<lparr>tf_name = ''/tmp/t.db'', tf_closed = True\<rparr> \<and>
   events_since (tmp_world stored_entries)
     (snd (snd (s3_close_spider sample_libs (s3_opened ok_client good_uri False True)
                  (tmp_world stored_entries))))
     = [DbmLen ''/tmp/t.db'', DbmClose ''/tmp/t.db'', TempfileFlush ''/tmp/t.db'',
        S3Upload ''/tmp/t.db'' ''bucket1'' ''path/snap.db'', TempfileClose ''/tmp/t.db'']"
proof -
  have h1: "db (s3_opened ok_client good_uri False True)
              = Some \<lparr>dbm_file = ''/tmp/t.db'', dbm_closed = False\<rparr>"
    by (rule opened_fields)
  have h2: "\<not> dbm_closed \<lparr>dbm_file = ''/tmp/t.db'', dbm_closed = False\<rparr>" by simp
  have h3: "path_to_local_file (s3_opened ok_client good_uri False True) = Some sample_tempfile"
    by (rule opened_fields)
  have h4: "\<not> tf_closed sample_tempfile" by (simp add: sample_tempfile_def)
  have h5: "get_netloc_and_path sample_libs (snapshot_uri (s3_opened ok_client good_uri False True))
              = Inr (''bucket1'', ''/path/snap.db'')"
    by (simp add: opened_fields good_location)
  have e: "dbm_entries \<lparr>dbm_file = ''/tmp/t.db'', dbm_closed = False\<rparr> (tmp_world stored_entries) \<noteq> []"
    by (simp add: dbm_entries_def tmp_world_def stored_entries_not_Nil)
  show ?thesis
    using h1 h3 h4 h5 e
      s3_close_releases_after_upload [OF h1 h2 h3 h4 h5, of "tmp_world stored_entries"]
    by (simp add: opened_fields ok_client_def sample_tempfile_def lstrip_slash_def)
qed

section \<open>Opening a remote session\<close>

text \<open>
  Claim C8, as the code has it. For a remote session whose location has scheme
  \<^verbatim>\<open>s3\<close> and an empty bucket or an empty path: with \<^verbatim>\<open>retrieve_mode\<close> on,
  \<^verbatim>\<open>open_spider\<close> raises \<^verbatim>\<open>ValueError("bucket and path must not be empty")\<close>
  once the staging file has been created and before any download or database is opened,
  and the session is unchanged; with \<^verbatim>\<open>retrieve_mode\<close> off \<^verbatim>\<open>open_spider\<close>
  does not look at the location and returns; \<^verbatim>\<open>is_uri_valid\<close> raises that
  \<^verbatim>\<open>ValueError\<close> whatever the mode flags are.
\<close>

theorem s3_open_invalid_location:
  assumes "urlparse L (snapshot_uri s) = Inr (''s3'', netloc, path)"
    and "netloc = [] \<or> path = []"
  shows "(retrieve_mode s \<longrightarrow>
            s3_open_spider L tmp s w =
              (Inl (ValueError ''bucket and path must not be empty''), s,
               emit (TempfileCreate tmp) (w\<lparr>files := (files w)(tmp \<mapsto> Plain [])\<rparr>))) \<and>
         (\<not> retrieve_mode s \<longrightarrow> fst (s3_open_spider L tmp s w) = Inr ()) \<and>
         s3_is_uri_valid L s = Inl (ValueError ''bucket and path must not be empty'')"
proof -
  have g: "get_netloc_and_path L (snapshot_uri s)
             = Inl (ValueError ''bucket and path must not be empty'')"
    using assms by (auto simp add: get_netloc_and_path_def)
  show ?thesis
    by (simp add: s3_open_spider_def s3_prepare_time_machine_def NamedTemporaryFile_def
        dbm_open_def g s3_is_uri_valid_def Let_def)
qed

text \<open>
  Claim C8 as stated fails: for the location \<^verbatim>\<open>s3:///onlypath\<close>, with
  \<^verbatim>\<open>retrieve_mode\<close> off \<^verbatim>\<open>open_spider\<close> returns with the staging file created
  and a database opened on it, and with \<^verbatim>\<open>retrieve_mode\<close> on it raises only after
  the staging file has been created.
\<close>

theorem s3_open_invalid_location_counterexample:
  "get_netloc_and_path sample_libs (Some ''s3:///onlypath'')
     = Inl (ValueError ''bucket and path must not be empty'') \<and>
   fst (s3_open_spider sample_libs ''/tmp/t.db''
          (s3_session ok_client ''s3:///onlypath'' False True) empty_world) = Inr () \<and>
   trace (snd (snd (s3_open_spider sample_libs ''/tmp/t.db''
          (s3_session ok_client ''s3:///onlypath'' False True) empty_world)))
     = [TempfileCreate ''/tmp/t.db'', DbmOpen ''/tmp/t.db'' ''n''] \<and>
   fst (s3_open_spider sample_libs ''/tmp/t.db''
          (s3_session ok_client ''s3:///onlypath'' True True) empty_world)
     = Inl (ValueError ''bucket and path must not be empty'') \<and>
   trace (snd (snd (s3_open_spider sample_libs ''/tmp/t.db''
          (s3_session ok_client ''s3:///onlypath'' True True) empty_world)))
     = [TempfileCreate ''/tmp/t.db'']"
  by (simp add: s3_open_spider_def s3_prepare_time_machine_def NamedTemporaryFile_def
      dbm_open_def get_netloc_and_path_def sample_libs_def s3_session_def empty_world_def
      emit_def Let_def)

theorem s3_open_invalid_location_witness:
  "urlparse sample_libs (snapshot_uri (s3_session ok_client ''s3:///onlypath'' True True))
     = Inr (''s3'', [], ''/onlypath'') \<and>
   retrieve_mode (s3_session ok_client ''s3:///onlypath'' True True) \<and>
   s3_open_spider sample_libs ''/tmp/t.db''
       (s3_session ok_client ''s3:///onlypath'' True True) empty_world =
     (Inl (ValueError ''bucket and path must not be empty''),
      s3_session ok_client ''s3:///onlypath'' True True,
      \<lparr>files = [''/tmp/t.db'' \<mapsto> Plain []], trace = [TempfileCreate ''/tmp/t.db'']\<rparr>) \<and>
   \<not> retrieve_mode (s3_session ok_client ''s3:///onlypath'' False True) \<and>
   fst (s3_open_spider sample_libs ''/tmp/t.db''
          (s3_session ok_client ''s3:///onlypath'' False True) empty_world) = Inr ()"
proof -
  have u: "urlparse sample_libs (snapshot_uri (s3_session ok_client ''s3:///onlypath'' r True))
             = Inr (''s3'', [], ''/onlypath'')" for r
    by (simp add: sample_libs_def s3_session_def)
  have n: "([]::string) = [] \<or> ''/onlypath'' = []" by simp
  show ?thesis
    using u [of True]
      s3_open_invalid_location [OF u [of True] n, of "''/tmp/t.db''" empty_world]
      s3_open_invalid_location [OF u [of False] n, of "''/tmp/t.db''" empty_world]
    by (simp add: s3_session_def empty_world_def emit_def)
qed

end
